theory Spec2Isabelle
  imports Complex_Main
begin

section \<open>Dates and timestamps\<close>

text \<open>
  The application stores dates as ISO strings (\<^verbatim>\<open>date.isoformat()\<close>) and reads them back
  with \<^verbatim>\<open>date.fromisoformat\<close> or \<^verbatim>\<open>pd.to_datetime\<close>. A date is modelled by its proleptic
  Gregorian ordinal (\<^verbatim>\<open>date.toordinal()\<close>), a point in time by the number of microseconds
  since midnight of ordinal 0, and a time difference by a number of microseconds.
\<close>

type_synonym date = int
type_synonym timestamp = int
type_synonym timedelta = int

definition is_leap :: "int \<Rightarrow> bool" where
  "is_leap y = (y mod 4 = 0 \<and> (y mod 100 \<noteq> 0 \<or> y mod 400 = 0))"

definition days_before_year :: "int \<Rightarrow> int" where
  "days_before_year year =
     (let y = year - 1 in y * 365 + y div 4 - y div 100 + y div 400)"

definition DAYS_BEFORE_MONTH :: "int list" where
  "DAYS_BEFORE_MONTH = [0, 31, 59, 90, 120, 151, 181, 212, 243, 273, 304, 334]"

definition days_before_month :: "int \<Rightarrow> nat \<Rightarrow> int" where
  "days_before_month year month =
     DAYS_BEFORE_MONTH ! (month - 1) + (if month > 2 \<and> is_leap year then 1 else 0)"

text \<open>\<^verbatim>\<open>datetime.date(year, month, day).toordinal()\<close>, for a month in 1..12.\<close>

definition ymd :: "int \<Rightarrow> nat \<Rightarrow> int \<Rightarrow> date" where
  "ymd year month day = days_before_year year + days_before_month year month + day"

definition US_PER_DAY :: int where
  "US_PER_DAY = 86400000000"

text \<open>\<^verbatim>\<open>pd.to_datetime\<close> of a stored date: midnight of that day.\<close>

definition to_datetime :: "date \<Rightarrow> timestamp" where
  "to_datetime d = d * US_PER_DAY"

text \<open>\<^verbatim>\<open>datetime.timedelta(days=n)\<close> for an integer \<open>n\<close>.\<close>

definition timedelta_days :: "int \<Rightarrow> timedelta" where
  "timedelta_days n = n * US_PER_DAY"

text \<open>The \<^verbatim>\<open>.days\<close> attribute of a time difference: whole days, rounded towards minus infinity.\<close>

definition days :: "timedelta \<Rightarrow> int" where
  "days delta = delta div US_PER_DAY"

section \<open>Tables\<close>

text \<open>
  The three tables of \<^verbatim>\<open>init_db\<close>. A table is the list of its rows in rowid order. The
  status and priority columns are \<^verbatim>\<open>TEXT\<close> and are compared as strings by the code.
\<close>

record project =
  p_id :: int
  p_name :: string
  p_description :: string
  p_start_date :: date
  p_end_date :: date
  p_status :: string
  p_progress :: int

record team_member =
  m_id :: int
  m_name :: string
  m_role :: string
  m_email :: string

record task =
  t_id :: int
  t_project_id :: int
  t_name :: string
  t_description :: string
  t_status :: string
  t_priority :: string
  t_start_date :: date
  t_due_date :: date
  t_assigned_to :: "int option"
  t_progress :: int

record db =
  projects :: "project list"
  team_members :: "team_member list"
  tasks :: "task list"

text \<open>The Python exceptions that the modelled code paths can raise.\<close>

datatype pyexn = TypeError | ValueError | IndexError | ZeroDivisionError

text \<open>
  \<^verbatim>\<open>LEFT JOIN team_members tm ON t.assigned_to = tm.id\<close>, column \<^verbatim>\<open>tm.name\<close>. The id is the
  table's \<^verbatim>\<open>INTEGER PRIMARY KEY\<close>, so at most one row matches and the join yields one row
  per task; an unassigned task, or one whose member is missing, gets \<^verbatim>\<open>NULL\<close>.
\<close>

definition assignee_name :: "team_member list \<Rightarrow> task \<Rightarrow> string option" where
  "assignee_name ms t =
     (case t_assigned_to t of
        None \<Rightarrow> None
      | Some a \<Rightarrow> map_option m_name (find (\<lambda>m. m_id m = a) ms))"

text \<open>\<^verbatim>\<open>LEFT JOIN projects p ON t.project_id = p.id\<close>, column \<^verbatim>\<open>p.name\<close>.\<close>

definition project_name :: "project list \<Rightarrow> task \<Rightarrow> string option" where
  "project_name ps t = map_option p_name (find (\<lambda>p. p_id p = t_project_id t) ps)"

section \<open>Reports page: the timeline tab\<close>

text \<open>
  \<^verbatim>\<open>projects_df[projects_df['name'] == selected_project]['id'].iloc[0]\<close>: the id of the
  first row bearing the selected name; \<^verbatim>\<open>iloc[0]\<close> on an empty selection raises.
\<close>

definition selected_project_id :: "project list \<Rightarrow> string \<Rightarrow> pyexn + int" where
  "selected_project_id ps selected_project =
     (case filter (\<lambda>p. p_name p = selected_project) ps of
        [] \<Rightarrow> Inl IndexError
      | p # _ \<Rightarrow> Inr (p_id p))"

text \<open>\<^verbatim>\<open>SELECT * FROM projects WHERE id = {project_id}\<close> followed by \<^verbatim>\<open>.iloc[0]\<close>.\<close>

definition project_details :: "project list \<Rightarrow> int \<Rightarrow> pyexn + project" where
  "project_details ps project_id =
     (case filter (\<lambda>p. p_id p = project_id) ps of
        [] \<Rightarrow> Inl IndexError
      | p # _ \<Rightarrow> Inr p)"

text \<open>The tasks of the project, each with its assignee's name.\<close>

definition timeline_tasks :: "db \<Rightarrow> int \<Rightarrow> (task \<times> string option) list" where
  "timeline_tasks d project_id =
     map (\<lambda>t. (t, assignee_name (team_members d) t))
       (filter (\<lambda>t. t_project_id t = project_id) (tasks d))"

text \<open>\<^verbatim>\<open>(tasks_df['due_date'] - tasks_df['start_date']).dt.days\<close>\<close>

definition task_durations :: "task list \<Rightarrow> int list" where
  "task_durations ts =
     map (\<lambda>t. days (to_datetime (t_due_date t) - to_datetime (t_start_date t))) ts"

text \<open>
  \<^verbatim>\<open>Series.idxmax()\<close> on the default index \<open>0, 1, ...\<close>: a scan that keeps the position of
  the largest value seen so far and replaces it only by a strictly larger one. It raises
  \<^verbatim>\<open>ValueError\<close> on an empty series.
\<close>

fun idxmax_from :: "nat \<Rightarrow> int \<Rightarrow> nat \<Rightarrow> int list \<Rightarrow> nat" where
  "idxmax_from best_i best_v i [] = best_i"
| "idxmax_from best_i best_v i (x # xs) =
     (if best_v < x then idxmax_from i x (Suc i) xs
      else idxmax_from best_i best_v (Suc i) xs)"

fun idxmax :: "int list \<Rightarrow> pyexn + nat" where
  "idxmax [] = Inl ValueError"
| "idxmax (x # xs) = Inr (idxmax_from 0 x 1 xs)"

text \<open>\<^verbatim>\<open>df.iloc[i]\<close> for a non-negative position.\<close>

definition iloc :: "'a list \<Rightarrow> nat \<Rightarrow> pyexn + 'a" where
  "iloc xs i = (if i < length xs then Inr (xs ! i) else Inl IndexError)"

text \<open>The critical-path lines: the longest duration and the task that has it.\<close>

definition critical_task :: "task list \<Rightarrow> pyexn + (int \<times> task)" where
  "critical_task ts =
     (case idxmax (task_durations ts) of
        Inl e \<Rightarrow> Inl e
      | Inr critical_task_idx \<Rightarrow>
          (case iloc ts critical_task_idx of
             Inl e \<Rightarrow> Inl e
           | Inr t \<Rightarrow> Inr (Max (set (task_durations ts)), t)))"

text \<open>
  Task completion: the number of completed tasks, the number of tasks, and
  \<^verbatim>\<open>(completed_tasks_count / total_tasks) * 100 if total_tasks > 0 else 0\<close>. The code
  computes with floating-point numbers; the model computes with exact rationals.
\<close>

definition completed_tasks_count :: "task list \<Rightarrow> nat" where
  "completed_tasks_count ts = length (filter (\<lambda>t. t_status t = ''Completed'') ts)"

definition completion_percentage :: "task list \<Rightarrow> rat" where
  "completion_percentage ts =
     (let total_tasks = length ts
      in if total_tasks > 0
         then (of_nat (completed_tasks_count ts) / of_nat total_tasks) * 100
         else 0)"

text \<open>Python's \<^verbatim>\<open>/\<close> on numbers raises when the divisor is zero.\<close>

definition truediv :: "rat \<Rightarrow> rat \<Rightarrow> pyexn + rat" where
  "truediv a b = (if b = 0 then Inl ZeroDivisionError else Inr (a / b))"

text \<open>
  \<^verbatim>\<open>datetime.timedelta(days=x)\<close> for a fractional \<open>x\<close>: the number of microseconds, rounded
  to the nearest one, a tie going to the even neighbour.
\<close>

definition round_half_even :: "rat \<Rightarrow> int" where
  "round_half_even x =
     (let f = \<lfloor>x\<rfloor>; r = x - of_int f
      in if r < 1 / 2 then f
         else if 1 / 2 < r then f + 1
         else if even f then f else f + 1)"

definition timedelta_of_days :: "rat \<Rightarrow> timedelta" where
  "timedelta_of_days x = round_half_even (x * of_int US_PER_DAY)"

text \<open>
  The forecast shown after the completion line: a warning with the number of days late, or
  the on-time message. The record keeps the intermediate values of the computation. Dates
  are unbounded integers here: a completion date beyond the range that a pandas timestamp
  can hold is outside the model.
\<close>

datatype prediction = Late int | On_time

record estimate =
  days_passed :: int
  estimated_total_days :: rat
  estimated_completion :: timestamp
  verdict :: prediction

definition estimate_completion :: "project \<Rightarrow> task list \<Rightarrow> timestamp \<Rightarrow> pyexn + estimate option" where
  "estimate_completion details ts now =
     (if completion_percentage ts > 0 then
        (let project_start = to_datetime (p_start_date details);
             project_end = to_datetime (p_end_date details);
             passed = days (now - project_start)
         in case truediv (of_int passed) (completion_percentage ts / 100) of
              Inl e \<Rightarrow> Inl e
            | Inr total_days \<Rightarrow>
                (let completion = project_start + timedelta_of_days total_days
                 in Inr (Some \<lparr>days_passed = passed,
                               estimated_total_days = total_days,
                               estimated_completion = completion,
                               verdict = (if completion > project_end
                                          then Late (days (completion - project_end))
                                          else On_time)\<rparr>)))
      else Inr None)"

text \<open>
  What the timeline tab shows. With no project at all, or no task for the selected project,
  it shows an information message (the project's details first in the second case).
\<close>

record analysis =
  longest_duration :: int
  longest_task :: task
  n_completed :: nat
  n_total :: nat
  percentage :: rat
  forecast :: "estimate option"

datatype timeline =
    No_projects string
  | No_tasks project string
  | Timeline project "(task \<times> string option) list" analysis

definition reports_page_timeline :: "db \<Rightarrow> string \<Rightarrow> timestamp \<Rightarrow> pyexn + timeline" where
  "reports_page_timeline d selected_project now =
     (if projects d = [] then
        Inr (No_projects ''No projects found. Create a project to view timeline reports.'')
      else
        case selected_project_id (projects d) selected_project of
          Inl e \<Rightarrow> Inl e
        | Inr project_id \<Rightarrow>
            (case project_details (projects d) project_id of
               Inl e \<Rightarrow> Inl e
             | Inr details \<Rightarrow>
                 (let tasks_df = timeline_tasks d project_id
                  in if tasks_df = [] then
                       Inr (No_tasks details
                         ''No tasks found for this project. Add tasks to see timeline analysis.'')
                     else
                       case critical_task (map fst tasks_df) of
                         Inl e \<Rightarrow> Inl e
                       | Inr (longest, t) \<Rightarrow>
                           (case estimate_completion details (map fst tasks_df) now of
                              Inl e \<Rightarrow> Inl e
                            | Inr est \<Rightarrow>
                                Inr (Timeline details tasks_df
                                  \<lparr>longest_duration = longest,
                                   longest_task = t,
                                   n_completed = completed_tasks_count (map fst tasks_df),
                                   n_total = length tasks_df,
                                   percentage = completion_percentage (map fst tasks_df),
                                   forecast = est\<rparr>)))))"


section \<open>Dashboard page: tasks due soon\<close>

text \<open>
  The rows kept by the filter: not completed, and due no later than seven days after the
  current time.
\<close>

definition upcoming_filter :: "timestamp \<Rightarrow> task list \<Rightarrow> task list" where
  "upcoming_filter today ts =
     filter (\<lambda>t. t_status t \<noteq> ''Completed'' \<and>
                 to_datetime (t_due_date t) \<le> today + timedelta_days 7) ts"

text \<open>
  \<^verbatim>\<open>upcoming_tasks.merge(projects_minimal, left_on='project_id', right_on='id')\<close>: an inner
  join that keeps the order of the left rows. Before it, \<^verbatim>\<open>sort_values('due_date')\<close> puts
  the rows in ascending order of due date; pandas does not fix the order of rows with equal
  due dates, the model keeps them in table order.
\<close>

definition merge_projects :: "project list \<Rightarrow> task list \<Rightarrow> (task \<times> project) list" where
  "merge_projects ps ts =
     concat (map (\<lambda>t. map (\<lambda>p. (t, p)) (filter (\<lambda>p. p_id p = t_project_id t) ps)) ts)"

record display_task =
  Task :: string
  Project :: string
  Status :: string
  Priority :: string
  Due_Date :: timestamp

definition display_tasks :: "(task \<times> project) list \<Rightarrow> display_task list" where
  "display_tasks rows =
     map (\<lambda>(t, p). \<lparr>Task = t_name t, Project = p_name p, Status = t_status t,
                     Priority = t_priority t, Due_Date = to_datetime (t_due_date t)\<rparr>) rows"

datatype due_soon = Due_info string | Due_table "display_task list"

definition dashboard_page_due_soon :: "db \<Rightarrow> timestamp \<Rightarrow> due_soon" where
  "dashboard_page_due_soon d today =
     (if tasks d = [] then
        Due_info ''No tasks found. Add tasks to see upcoming deadlines.''
      else
        (let upcoming_tasks = upcoming_filter today (tasks d)
         in if upcoming_tasks = [] then
              Due_info ''No upcoming deadlines in the next 7 days.''
            else
              Due_table (display_tasks (merge_projects (projects d)
                (sort_key (\<lambda>t. to_datetime (t_due_date t)) upcoming_tasks)))))"

section \<open>Tasks page: the filtered listing\<close>

text \<open>
  A row of the query: the task, \<^verbatim>\<open>project_name\<close> and \<^verbatim>\<open>assignee_name\<close>. A comparison with
  \<^verbatim>\<open>NULL\<close> is not true, so a row without a project fails \<^verbatim>\<open>p.name = ?\<close>. The text
  comparison \<^verbatim>\<open>=\<close> of SQLite is exact (binary collation), as equality of strings is here.
  The query has no \<^verbatim>\<open>ORDER BY\<close>; rows are taken in table order.
\<close>

type_synonym task_row = "task \<times> string option \<times> string option"

definition joined_tasks :: "db \<Rightarrow> task_row list" where
  "joined_tasks d =
     map (\<lambda>t. (t, project_name (projects d) t, assignee_name (team_members d) t)) (tasks d)"



section \<open>Projects page and tasks page: the add/edit forms\<close>

text \<open>
  \<^verbatim>\<open>st.session_state['edit_project']\<close> and \<^verbatim>\<open>st.session_state['edit_task']\<close> hold
  \<^verbatim>\<open>None\<close>, the string \<^verbatim>\<open>"new"\<close> or the id of the row being edited. A form is shown when the
  value is not \<^verbatim>\<open>None\<close>. One run of the page sees at most one button pressed.
\<close>

datatype edit_state = New | Row int

datatype button = Save | Cancel | No_button

text \<open>The messages of \<^verbatim>\<open>st.success\<close> and \<^verbatim>\<open>st.error\<close>.\<close>

datatype notice = Success string | Error string

record outcome =
  o_db :: db
  o_edit :: "edit_state option"
  o_notice :: "notice option"

text \<open>\<^verbatim>\<open>list.index(x)\<close>: the position of the first occurrence, or \<^verbatim>\<open>ValueError\<close>.\<close>

definition list_index :: "'a list \<Rightarrow> 'a \<Rightarrow> pyexn + nat" where
  "list_index xs x =
     (if x \<in> set xs then Inr (length (takeWhile (\<lambda>y. y \<noteq> x) xs)) else Inl ValueError)"

text \<open>
  The rowid that SQLite gives to a row inserted without an id into a table with an
  \<^verbatim>\<open>INTEGER PRIMARY KEY\<close>: 1 for an empty table, else one more than the largest id in use.
  (When the largest id is \<open>2\<^sup>6\<^sup>3 - 1\<close> the engine tries random ids instead; the theorems
  below exclude that case by hypothesis.)
\<close>

definition new_rowid :: "int list \<Rightarrow> int" where
  "new_rowid ids = (if ids = [] then 1 else Max (set ids) + 1)"

definition MAX_ROWID :: int where
  "MAX_ROWID = 9223372036854775807"

definition rowids_below_max :: "int list \<Rightarrow> bool" where
  "rowids_below_max ids = list_all (\<lambda>i. i < MAX_ROWID) ids"

subsection \<open>Projects\<close>

record project_form =
  pf_name :: string
  pf_description :: string
  pf_start_date :: date
  pf_end_date :: date
  pf_status :: string
  pf_progress :: int

definition PROJECT_STATUSES :: "string list" where
  "PROJECT_STATUSES = [''Planning'', ''In Progress'', ''On Hold'', ''Completed'', ''Cancelled'']"

text \<open>\<^verbatim>\<open>SELECT * FROM projects WHERE id = ?\<close> and \<^verbatim>\<open>fetchone()\<close>.\<close>

definition fetchone_project :: "project list \<Rightarrow> int \<Rightarrow> project option" where
  "fetchone_project ps i = find (\<lambda>p. p_id p = i) ps"

text \<open>
  \<^verbatim>\<open>project_data\<close>, of which the form logic uses the id and the status. For an id that is not
  in the table \<^verbatim>\<open>fetchone()\<close> returns \<^verbatim>\<open>None\<close> and \<^verbatim>\<open>zip(..., None)\<close> raises
  \<^verbatim>\<open>TypeError\<close>.
\<close>

definition load_project_data :: "project list \<Rightarrow> edit_state \<Rightarrow> pyexn + (int option \<times> string)" where
  "load_project_data ps e =
     (case e of
        New \<Rightarrow> Inr (None, ''Planning'')
      | Row i \<Rightarrow>
          (case fetchone_project ps i of
             None \<Rightarrow> Inl TypeError
           | Some p \<Rightarrow> Inr (Some (p_id p), p_status p)))"

definition project_of_form :: "int \<Rightarrow> project_form \<Rightarrow> project" where
  "project_of_form i f =
     \<lparr>p_id = i, p_name = pf_name f, p_description = pf_description f,
      p_start_date = pf_start_date f, p_end_date = pf_end_date f,
      p_status = pf_status f, p_progress = pf_progress f\<rparr>"

text \<open>\<^verbatim>\<open>INSERT INTO projects (name, ...) VALUES (...)\<close>\<close>

definition insert_project :: "project list \<Rightarrow> project_form \<Rightarrow> project list" where
  "insert_project ps f = ps @ [project_of_form (new_rowid (map p_id ps)) f]"

text \<open>\<^verbatim>\<open>UPDATE projects SET name = ?, ... WHERE id = ?\<close>\<close>

definition update_project :: "project list \<Rightarrow> int \<Rightarrow> project_form \<Rightarrow> project list" where
  "update_project ps i f = map (\<lambda>p. if p_id p = i then project_of_form i f else p) ps"

text \<open>
  The form branch of \<^verbatim>\<open>projects_page\<close>: the state of the database and of the session after
  the run, with the message shown, or the exception that ends the run. Every exception of
  this branch is raised before the first statement that writes, so a run that ends in one
  leaves the database as it was.
\<close>

definition projects_page_form :: "db \<Rightarrow> edit_state \<Rightarrow> project_form \<Rightarrow> button \<Rightarrow> pyexn + outcome" where
  "projects_page_form d e f b =
     (case load_project_data (projects d) e of
        Inl x \<Rightarrow> Inl x
      | Inr (data_id, data_status) \<Rightarrow>
          (case list_index PROJECT_STATUSES data_status of
             Inl x \<Rightarrow> Inl x
           | Inr _ \<Rightarrow>
               (case b of
                  Cancel \<Rightarrow> Inr \<lparr>o_db = d, o_edit = None, o_notice = None\<rparr>
                | No_button \<Rightarrow> Inr \<lparr>o_db = d, o_edit = Some e, o_notice = None\<rparr>
                | Save \<Rightarrow>
                    (if pf_name f \<noteq> [] then
                       Inr \<lparr>o_db = d\<lparr>projects :=
                                (case data_id of
                                   None \<Rightarrow> insert_project (projects d) f
                                 | Some i \<Rightarrow> update_project (projects d) i f)\<rparr>,
                            o_edit = None,
                            o_notice = Some (Success ''Project saved successfully!'')\<rparr>
                     else
                       Inr \<lparr>o_db = d, o_edit = Some e,
                            o_notice = Some (Error ''Project name is required.'')\<rparr>))))"

text \<open>The values that the form's widgets can deliver: a listed status, a slider position.\<close>

definition project_form_values :: "project_form \<Rightarrow> bool" where
  "project_form_values f =
     (pf_status f \<in> set PROJECT_STATUSES \<and> 0 \<le> pf_progress f \<and> pf_progress f \<le> 100)"

subsection \<open>Tasks\<close>

record task_form =
  tf_name :: string
  tf_project_idx :: string
  tf_description :: string
  tf_start_date :: date
  tf_due_date :: date
  tf_status :: string
  tf_priority :: string
  tf_assigned_idx :: string
  tf_progress :: int

definition TASK_STATUSES :: "string list" where
  "TASK_STATUSES = [''Not Started'', ''In Progress'', ''Blocked'', ''Completed'']"

definition TASK_PRIORITIES :: "string list" where
  "TASK_PRIORITIES = [''Low'', ''Medium'', ''High'']"

definition fetchone_task :: "task list \<Rightarrow> int \<Rightarrow> task option" where
  "fetchone_task ts i = find (\<lambda>t. t_id t = i) ts"

text \<open>\<^verbatim>\<open>task_data\<close>: the id, the status and the priority.\<close>

definition load_task_data :: "task list \<Rightarrow> edit_state \<Rightarrow> pyexn + (int option \<times> string \<times> string)" where
  "load_task_data ts e =
     (case e of
        New \<Rightarrow> Inr (None, ''Not Started'', ''Medium'')
      | Row i \<Rightarrow>
          (case fetchone_task ts i of
             None \<Rightarrow> Inl TypeError
           | Some t \<Rightarrow> Inr (Some (t_id t), t_status t, t_priority t)))"

text \<open>\<^verbatim>\<open>project_ids[project_options.index(project_idx)]\<close>\<close>

definition chosen_project_id :: "project list \<Rightarrow> string \<Rightarrow> pyexn + int" where
  "chosen_project_id ps project_idx =
     (case list_index (map p_name ps) project_idx of
        Inl x \<Rightarrow> Inl x
      | Inr k \<Rightarrow> iloc (map p_id ps) k)"

text \<open>
  \<^verbatim>\<open>None if assigned_idx == "Unassigned" or team_df.empty
     else team_ids[team_options.index(assigned_idx)]\<close>
\<close>

definition chosen_assignee :: "team_member list \<Rightarrow> string \<Rightarrow> pyexn + int option" where
  "chosen_assignee ms assigned_idx =
     (if assigned_idx = ''Unassigned'' \<or> ms = [] then Inr None
      else
        case list_index (''Unassigned'' # map m_name ms) assigned_idx of
          Inl x \<Rightarrow> Inl x
        | Inr k \<Rightarrow> iloc (None # map (\<lambda>m. Some (m_id m)) ms) k)"

definition task_of_form :: "int \<Rightarrow> int \<Rightarrow> int option \<Rightarrow> task_form \<Rightarrow> task" where
  "task_of_form i project_id assigned_to f =
     \<lparr>t_id = i, t_project_id = project_id, t_name = tf_name f,
      t_description = tf_description f, t_status = tf_status f, t_priority = tf_priority f,
      t_start_date = tf_start_date f, t_due_date = tf_due_date f,
      t_assigned_to = assigned_to, t_progress = tf_progress f\<rparr>"

definition insert_task :: "task list \<Rightarrow> int \<Rightarrow> int option \<Rightarrow> task_form \<Rightarrow> task list" where
  "insert_task ts project_id assigned_to f =
     ts @ [task_of_form (new_rowid (map t_id ts)) project_id assigned_to f]"

definition update_task :: "task list \<Rightarrow> int \<Rightarrow> int \<Rightarrow> int option \<Rightarrow> task_form \<Rightarrow> task list" where
  "update_task ts i project_id assigned_to f =
     map (\<lambda>t. if t_id t = i then task_of_form i project_id assigned_to f else t) ts"

definition tasks_page_form :: "db \<Rightarrow> edit_state \<Rightarrow> task_form \<Rightarrow> button \<Rightarrow> pyexn + outcome" where
  "tasks_page_form d e f b =
     (case load_task_data (tasks d) e of
        Inl x \<Rightarrow> Inl x
      | Inr (data_id, data_status, data_priority) \<Rightarrow>
          (case list_index TASK_STATUSES data_status of
             Inl x \<Rightarrow> Inl x
           | Inr _ \<Rightarrow>
               (case list_index TASK_PRIORITIES data_priority of
                  Inl x \<Rightarrow> Inl x
                | Inr _ \<Rightarrow>
                    (case b of
                       Cancel \<Rightarrow> Inr \<lparr>o_db = d, o_edit = None, o_notice = None\<rparr>
                     | No_button \<Rightarrow> Inr \<lparr>o_db = d, o_edit = Some e, o_notice = None\<rparr>
                     | Save \<Rightarrow>
                         (if tf_name f \<noteq> [] \<and> projects d \<noteq> [] then
                            (case chosen_project_id (projects d) (tf_project_idx f) of
                               Inl x \<Rightarrow> Inl x
                             | Inr project_id \<Rightarrow>
                                 (case chosen_assignee (team_members d) (tf_assigned_idx f) of
                                    Inl x \<Rightarrow> Inl x
                                  | Inr assigned_to \<Rightarrow>
                                      Inr \<lparr>o_db = d\<lparr>tasks :=
                                             (case data_id of
                                                None \<Rightarrow> insert_task (tasks d) project_id assigned_to f
                                              | Some i \<Rightarrow> update_task (tasks d) i project_id assigned_to f)\<rparr>,
                                           o_edit = None,
                                           o_notice = Some (Success ''Task saved successfully!'')\<rparr>))
                          else if projects d = [] then
                            Inr \<lparr>o_db = d, o_edit = Some e,
                                 o_notice = Some (Error ''You need to create a project before adding tasks.'')\<rparr>
                          else
                            Inr \<lparr>o_db = d, o_edit = Some e,
                                 o_notice = Some (Error ''Task name is required.'')\<rparr>)))))"

section \<open>Rows for the worked examples\<close>

definition a_project :: "int \<Rightarrow> string \<Rightarrow> date \<Rightarrow> date \<Rightarrow> int \<Rightarrow> project" where
  "a_project i n s e pr =
     \<lparr>p_id = i, p_name = n, p_description = [], p_start_date = s, p_end_date = e,
      p_status = ''In Progress'', p_progress = pr\<rparr>"

definition a_task :: "int \<Rightarrow> int \<Rightarrow> string \<Rightarrow> string \<Rightarrow> date \<Rightarrow> date \<Rightarrow> task" where
  "a_task i pid n st s due =
     \<lparr>t_id = i, t_project_id = pid, t_name = n, t_description = [], t_status = st,
      t_priority = ''Medium'', t_start_date = s, t_due_date = due, t_assigned_to = None,
      t_progress = 0\<rparr>"

text \<open>One project with three tasks that last 5, 9 and 9 days.\<close>

definition durations_db :: db where
  "durations_db =
     \<lparr>projects = [a_project 1 ''Apollo'' (ymd 2024 1 1) (ymd 2024 3 1) 40],
      team_members = [],
      tasks = [a_task 1 1 ''design'' ''Completed'' (ymd 2024 1 1) (ymd 2024 1 6),
               a_task 2 1 ''build'' ''In Progress'' (ymd 2024 1 6) (ymd 2024 1 15),
               a_task 3 1 ''test'' ''Not Started'' (ymd 2024 1 15) (ymd 2024 1 24)]\<rparr>"






text \<open>
  The specification's example for the tasks due soon (due 2024-01-03, 2024-01-20 and a
  completed one due 2024-01-05), with one more open task that was due on 2023-12-20.
\<close>

definition overdue_db :: db where
  "overdue_db =
     \<lparr>projects = [a_project 1 ''Apollo'' (ymd 2023 12 1) (ymd 2024 3 1) 40],
      team_members = [],
      tasks = [a_task 1 1 ''soon'' ''Not Started'' (ymd 2023 12 1) (ymd 2024 1 3),
               a_task 2 1 ''later'' ''Not Started'' (ymd 2023 12 1) (ymd 2024 1 20),
               a_task 3 1 ''done'' ''Completed'' (ymd 2023 12 1) (ymd 2024 1 5),
               a_task 4 1 ''overdue'' ''Not Started'' (ymd 2023 12 1) (ymd 2023 12 20)]\<rparr>"

definition a_project_form :: "string \<Rightarrow> project_form" where
  "a_project_form n =
     \<lparr>pf_name = n, pf_description = ''notes'', pf_start_date = ymd 2024 1 1,
      pf_end_date = ymd 2024 1 31, pf_status = ''Planning'', pf_progress = 25\<rparr>"

definition a_task_form :: "string \<Rightarrow> string \<Rightarrow> task_form" where
  "a_task_form n p =
     \<lparr>tf_name = n, tf_project_idx = p, tf_description = [], tf_start_date = ymd 2024 1 1,
      tf_due_date = ymd 2024 1 8, tf_status = ''Not Started'', tf_priority = ''Medium'',
      tf_assigned_idx = ''Unassigned'', tf_progress = 0\<rparr>"



section \<open>Properties\<close>

subsection \<open>Helper facts\<close>

lemma US_PER_DAY_pos: "0 < US_PER_DAY"
  by (simp add: US_PER_DAY_def)

lemma days_of_date_difference: "days (to_datetime a - to_datetime b) = a - b"
proof -
  have "to_datetime a - to_datetime b = (a - b) * US_PER_DAY"
    by (simp add: to_datetime_def algebra_simps)
  then show ?thesis
    using US_PER_DAY_pos by (simp add: days_def)
qed

lemma task_durations_nth:
  "j < length ts \<Longrightarrow> task_durations ts ! j = t_due_date (ts ! j) - t_start_date (ts ! j)"
  by (simp add: task_durations_def days_of_date_difference)




lemma estimate_completion_returns:
  "\<exists>r. estimate_completion details ts now = Inr r"
  by (simp add: estimate_completion_def truediv_def Let_def)


lemma idxmax_from_first_max:
  assumes "i = length pre" "best_i < i" "pre ! best_i = best_v"
    and "\<forall>j<length pre. pre ! j \<le> best_v" and "\<forall>j<best_i. pre ! j < best_v"
  shows "idxmax_from best_i best_v i xs < length (pre @ xs) \<and>
         (\<forall>j<length (pre @ xs). (pre @ xs) ! j \<le> (pre @ xs) ! idxmax_from best_i best_v i xs) \<and>
         (\<forall>j<idxmax_from best_i best_v i xs. (pre @ xs) ! j < (pre @ xs) ! idxmax_from best_i best_v i xs)"
  using assms
proof (induction xs arbitrary: pre best_i best_v i)
  case Nil
  then show ?case by simp
next
  case (Cons x xs)
  show ?case
  proof (cases "best_v < x")
    case True
    have "idxmax_from i x (Suc i) xs < length ((pre @ [x]) @ xs) \<and>
         (\<forall>j<length ((pre @ [x]) @ xs). ((pre @ [x]) @ xs) ! j \<le> ((pre @ [x]) @ xs) ! idxmax_from i x (Suc i) xs) \<and>
         (\<forall>j<idxmax_from i x (Suc i) xs. ((pre @ [x]) @ xs) ! j < ((pre @ [x]) @ xs) ! idxmax_from i x (Suc i) xs)"
    proof (rule Cons.IH)
      show "Suc i = length (pre @ [x])" using Cons.prems by simp
      show "i < Suc i" by simp
      show "(pre @ [x]) ! i = x" using Cons.prems by simp
      show "\<forall>j<length (pre @ [x]). (pre @ [x]) ! j \<le> x"
        using Cons.prems True by (auto simp: nth_append less_Suc_eq)
      show "\<forall>j<i. (pre @ [x]) ! j < x"
        using Cons.prems True by (auto simp: nth_append)
    qed
    with True show ?thesis by simp
  next
    case False
    have "idxmax_from best_i best_v (Suc i) xs < length ((pre @ [x]) @ xs) \<and>
         (\<forall>j<length ((pre @ [x]) @ xs). ((pre @ [x]) @ xs) ! j \<le> ((pre @ [x]) @ xs) ! idxmax_from best_i best_v (Suc i) xs) \<and>
         (\<forall>j<idxmax_from best_i best_v (Suc i) xs. ((pre @ [x]) @ xs) ! j < ((pre @ [x]) @ xs) ! idxmax_from best_i best_v (Suc i) xs)"
    proof (rule Cons.IH)
      show "Suc i = length (pre @ [x])" using Cons.prems by simp
      show "best_i < Suc i" using Cons.prems by simp
      show "(pre @ [x]) ! best_i = best_v" using Cons.prems by (simp add: nth_append)
      show "\<forall>j<length (pre @ [x]). (pre @ [x]) ! j \<le> best_v"
        using Cons.prems False by (auto simp: nth_append less_Suc_eq)
      show "\<forall>j<best_i. (pre @ [x]) ! j < best_v"
        using Cons.prems by (auto simp: nth_append)
    qed
    with False show ?thesis by simp
  qed
qed

lemma idxmax_first_max:
  assumes "xs \<noteq> []"
  shows "\<exists>r. idxmax xs = Inr r \<and> r < length xs \<and> (\<forall>j<length xs. xs ! j \<le> xs ! r) \<and>
             (\<forall>j<r. xs ! j < xs ! r)"
proof (cases xs)
  case Nil
  with assms show ?thesis by simp
next
  case (Cons x xs')
  have "idxmax_from 0 x 1 xs' < length ([x] @ xs') \<and>
         (\<forall>j<length ([x] @ xs'). ([x] @ xs') ! j \<le> ([x] @ xs') ! idxmax_from 0 x 1 xs') \<and>
         (\<forall>j<idxmax_from 0 x 1 xs'. ([x] @ xs') ! j < ([x] @ xs') ! idxmax_from 0 x 1 xs')"
    by (rule idxmax_from_first_max) simp_all
  with Cons show ?thesis by simp
qed

lemma critical_task_first_longest:
  assumes "ts \<noteq> []"
  shows "\<exists>k<length ts.
           critical_task ts = Inr (t_due_date (ts ! k) - t_start_date (ts ! k), ts ! k) \<and>
           (\<forall>j<length ts. t_due_date (ts ! j) - t_start_date (ts ! j)
                             \<le> t_due_date (ts ! k) - t_start_date (ts ! k)) \<and>
           (\<forall>j<k. t_due_date (ts ! j) - t_start_date (ts ! j)
                     < t_due_date (ts ! k) - t_start_date (ts ! k))"
proof -
  let ?ds = "task_durations ts"
  have len: "length ?ds = length ts" by (simp add: task_durations_def)
  with assms have "?ds \<noteq> []" by auto
  from idxmax_first_max [OF this] obtain r where r:
    "idxmax ?ds = Inr r" "r < length ?ds" "\<forall>j<length ?ds. ?ds ! j \<le> ?ds ! r"
    "\<forall>j<r. ?ds ! j < ?ds ! r" by blast
  have rlt: "r < length ts" using r(2) len by simp
  have "Max (set ?ds) = ?ds ! r"
  proof (rule Max_eqI)
    show "finite (set ?ds)" by simp
    show "\<And>y. y \<in> set ?ds \<Longrightarrow> y \<le> ?ds ! r" using r(3) by (auto simp: in_set_conv_nth)
    show "?ds ! r \<in> set ?ds" using r(2) by simp
  qed
  then have ct: "critical_task ts = Inr (?ds ! r, ts ! r)"
    using r(1) rlt by (simp add: critical_task_def iloc_def)
  have le: "\<forall>j<length ts. ?ds ! j \<le> ?ds ! r" using r(3) len by simp
  have lt: "\<forall>j<r. ?ds ! j < ?ds ! r" using r(4) .
  have "critical_task ts = Inr (t_due_date (ts ! r) - t_start_date (ts ! r), ts ! r)"
    using ct rlt by (simp add: task_durations_nth)
  moreover have "\<forall>j<length ts. t_due_date (ts ! j) - t_start_date (ts ! j)
                             \<le> t_due_date (ts ! r) - t_start_date (ts ! r)"
    using le rlt by (simp add: task_durations_nth)
  moreover have "\<forall>j<r. t_due_date (ts ! j) - t_start_date (ts ! j)
                     < t_due_date (ts ! r) - t_start_date (ts ! r)"
  proof (intro allI impI)
    fix j assume "j < r"
    then have "j < length ts" using rlt by simp
    with lt \<open>j < r\<close> rlt show "t_due_date (ts ! j) - t_start_date (ts ! j)
                     < t_due_date (ts ! r) - t_start_date (ts ! r)"
      by (metis task_durations_nth)
  qed
  ultimately show ?thesis using rlt by blast
qed

lemma selected_project_id_details:
  assumes "selected_project_id ps sel = Inr pid"
  shows "\<exists>details. project_details ps pid = Inr details \<and> p_id details = pid"
proof -
  from assms obtain p rest where f: "filter (\<lambda>p. p_name p = sel) ps = p # rest" and "p_id p = pid"
    by (auto simp: selected_project_id_def split: list.splits)
  then have "p \<in> set (filter (\<lambda>p. p_name p = sel) ps)" by simp
  then have "p \<in> set ps" by simp
  with \<open>p_id p = pid\<close> have "filter (\<lambda>p. p_id p = pid) ps \<noteq> []"
    by (auto simp: filter_empty_conv)
  then obtain q qs where q: "filter (\<lambda>p. p_id p = pid) ps = q # qs"
    by (cases "filter (\<lambda>p. p_id p = pid) ps") auto
  then have "q \<in> set (filter (\<lambda>p. p_id p = pid) ps)" by simp
  then have "p_id q = pid" by simp
  with q show ?thesis by (simp add: project_details_def)
qed

lemma selected_project_id_nonempty:
  "selected_project_id ps sel = Inr pid \<Longrightarrow> ps \<noteq> []"
  by (auto simp: selected_project_id_def)

lemma map_fst_timeline_tasks:
  "map fst (timeline_tasks d pid) = filter (\<lambda>t. t_project_id t = pid) (tasks d)"
  by (simp add: timeline_tasks_def comp_def)









lemma ymd_2024_01: "ymd 2024 1 d = 738885 + d" "ymd 2024 (Suc 0) d = 738885 + d"
  by (simp_all add: ymd_def days_before_year_def days_before_month_def DAYS_BEFORE_MONTH_def
      is_leap_def)





lemma ymd_2023_12: "ymd 2023 12 d = 738854 + d"
  by (simp add: ymd_def days_before_year_def days_before_month_def DAYS_BEFORE_MONTH_def
      is_leap_def)

lemma upcoming_filter_keeps_overdue:
  assumes "t \<in> set ts" "t_status t \<noteq> ''Completed''" "to_datetime (t_due_date t) \<le> today"
  shows "t \<in> set (upcoming_filter today ts)"
  using assms US_PER_DAY_pos by (simp add: upcoming_filter_def timedelta_days_def)

lemma find_absent: "i \<notin> f ` set xs \<Longrightarrow> find (\<lambda>x. f x = i) xs = None"
  by (induction xs) auto

lemma map_update_absent:
  "i \<notin> f ` set xs \<Longrightarrow> map (\<lambda>x. if f x = i then g x else x) xs = xs"
  by (induction xs) auto

lemma tasks_page_form_absent:
  "i \<notin> t_id ` set (tasks d) \<Longrightarrow> tasks_page_form d (Row i) f b = Inl TypeError"
  by (simp add: tasks_page_form_def load_task_data_def fetchone_task_def find_absent)

lemma projects_page_form_absent:
  "i \<notin> p_id ` set (projects d) \<Longrightarrow> projects_page_form d (Row i) f b = Inl TypeError"
  by (simp add: projects_page_form_def load_project_data_def fetchone_project_def find_absent)

lemma new_rowid_fresh: "new_rowid ids \<notin> set ids"
proof (cases "ids = []")
  case True
  then show ?thesis by simp
next
  case False
  have "Max (set ids) + 1 \<notin> set ids"
  proof
    assume "Max (set ids) + 1 \<in> set ids"
    then have "Max (set ids) + 1 \<le> Max (set ids)" by (intro Max_ge) simp_all
    then show False by simp
  qed
  with False show ?thesis by (simp add: new_rowid_def)
qed

lemma new_rowid_in_range:
  assumes "rowids_below_max ids"
  shows "new_rowid ids \<le> MAX_ROWID"
proof (cases "ids = []")
  case True
  then show ?thesis by (simp add: new_rowid_def MAX_ROWID_def)
next
  case False
  then have "Max (set ids) \<in> set ids" by (intro Max_in) simp_all
  with assms have "Max (set ids) < MAX_ROWID"
    unfolding rowids_below_max_def list_all_iff by blast
  then have "Max (set ids) + 1 \<le> MAX_ROWID" by linarith
  with False show ?thesis by (simp only: new_rowid_def if_False)
qed

lemma projects_page_form_new_save:
  "pf_name f \<noteq> [] \<Longrightarrow>
   projects_page_form d New f Save =
     Inr \<lparr>o_db = d\<lparr>projects := projects d @ [project_of_form (new_rowid (map p_id (projects d))) f]\<rparr>,
          o_edit = None, o_notice = Some (Success ''Project saved successfully!'')\<rparr>"
  by (simp add: projects_page_form_def load_project_data_def list_index_def
      PROJECT_STATUSES_def insert_project_def)


lemma fetchone_project_appended:
  assumes "i \<notin> set (map p_id ps)" "p_id p = i"
  shows "fetchone_project (ps @ [p]) i = Some p"
  using assms unfolding fetchone_project_def by (induction ps) auto

lemma map_fst_joined_tasks: "map fst (joined_tasks d) = tasks d"
  by (simp add: joined_tasks_def comp_def)







subsection \<open>The longest task\<close>

text \<open>
  Claim C9. When the selected project has at least one task, the timeline tab reports the
  task whose duration \<open>due_date - start_date\<close> is the largest among the tasks of that
  project, and among several tasks of that largest duration the one that comes first in row
  order: every row has a duration not above the reported one, and every row before the
  reported task has a strictly smaller duration.
\<close>

theorem timeline_longest_task:
  assumes sel: "selected_project_id (projects d) sel = Inr pid"
    and ne: "filter (\<lambda>t. t_project_id t = pid) (tasks d) \<noteq> []"
  shows "\<exists>details rows a k.
           reports_page_timeline d sel now = Inr (Timeline details rows a) \<and>
           p_id details = pid \<and>
           map fst rows = filter (\<lambda>t. t_project_id t = pid) (tasks d) \<and>
           k < length rows \<and>
           longest_task a = fst (rows ! k) \<and>
           longest_duration a = t_due_date (fst (rows ! k)) - t_start_date (fst (rows ! k)) \<and>
           (\<forall>j<length rows. t_due_date (fst (rows ! j)) - t_start_date (fst (rows ! j))
                               \<le> longest_duration a) \<and>
           (\<forall>j<k. t_due_date (fst (rows ! j)) - t_start_date (fst (rows ! j))
                      < longest_duration a)"
proof -
  let ?rows = "timeline_tasks d pid"
  let ?ts = "map fst ?rows"
  from selected_project_id_details [OF sel] obtain details where
    det: "project_details (projects d) pid = Inr details" "p_id details = pid" by blast
  have pne: "projects d \<noteq> []" using sel by (rule selected_project_id_nonempty)
  have ts: "?ts = filter (\<lambda>t. t_project_id t = pid) (tasks d)"
    by (rule map_fst_timeline_tasks)
  with ne have tne: "?ts \<noteq> []" by simp
  then have rne: "?rows \<noteq> []" by auto
  from critical_task_first_longest [OF tne] obtain k where k: "k < length ?ts"
    "critical_task ?ts = Inr (t_due_date (?ts ! k) - t_start_date (?ts ! k), ?ts ! k)"
    "\<forall>j<length ?ts. t_due_date (?ts ! j) - t_start_date (?ts ! j)
                             \<le> t_due_date (?ts ! k) - t_start_date (?ts ! k)"
    "\<forall>j<k. t_due_date (?ts ! j) - t_start_date (?ts ! j)
                     < t_due_date (?ts ! k) - t_start_date (?ts ! k)" by blast
  obtain est where est: "estimate_completion details ?ts now = Inr est"
    using estimate_completion_returns by blast
  define a where "a = \<lparr>longest_duration = t_due_date (?ts ! k) - t_start_date (?ts ! k),
      longest_task = ?ts ! k, n_completed = completed_tasks_count ?ts, n_total = length ?rows,
      percentage = completion_percentage ?ts, forecast = est\<rparr>"
  have page: "reports_page_timeline d sel now = Inr (Timeline details ?rows a)"
    unfolding reports_page_timeline_def a_def using pne sel det(1) rne k(2) est
    by (simp add: Let_def)
  have klen: "k < length ?rows" using k(1) by simp
  have nth: "\<And>j. j < length ?rows \<Longrightarrow> ?ts ! j = fst (?rows ! j)" by simp
  have "longest_task a = fst (?rows ! k)" using klen by (simp add: a_def)
  moreover have ld: "longest_duration a = t_due_date (fst (?rows ! k)) - t_start_date (fst (?rows ! k))"
    using klen by (simp add: a_def)
  moreover have "\<forall>j<length ?rows. t_due_date (fst (?rows ! j)) - t_start_date (fst (?rows ! j))
                               \<le> longest_duration a"
    using k(3) klen unfolding ld by simp
  moreover have "\<forall>j<k. t_due_date (fst (?rows ! j)) - t_start_date (fst (?rows ! j))
                      < longest_duration a"
  proof (intro allI impI)
    fix j assume jk: "j < k"
    then have "j < length ?rows" using klen by simp
    then show "t_due_date (fst (?rows ! j)) - t_start_date (fst (?rows ! j)) < longest_duration a"
      using k(4) jk klen unfolding ld by simp
  qed
  ultimately show ?thesis using page det(2) ts klen by blast
qed

theorem timeline_longest_task_witness:
  "selected_project_id (projects durations_db) ''Apollo'' = Inr 1 \<and>
   filter (\<lambda>t. t_project_id t = 1) (tasks durations_db) \<noteq> [] \<and>
   (\<exists>details rows a k.
      reports_page_timeline durations_db ''Apollo'' 0 = Inr (Timeline details rows a) \<and>
      p_id details = 1 \<and>
      map fst rows = filter (\<lambda>t. t_project_id t = 1) (tasks durations_db) \<and>
      k < length rows \<and>
      longest_task a = fst (rows ! k) \<and>
      longest_duration a = t_due_date (fst (rows ! k)) - t_start_date (fst (rows ! k)) \<and>
      (\<forall>j<length rows. t_due_date (fst (rows ! j)) - t_start_date (fst (rows ! j))
                          \<le> longest_duration a) \<and>
      (\<forall>j<k. t_due_date (fst (rows ! j)) - t_start_date (fst (rows ! j))
                 < longest_duration a))"
proof -
  have h1: "selected_project_id (projects durations_db) ''Apollo'' = Inr 1"
    by (simp add: durations_db_def selected_project_id_def a_project_def)
  have h2: "filter (\<lambda>t. t_project_id t = 1) (tasks durations_db) \<noteq> []"
    by (simp add: durations_db_def a_task_def)
  from timeline_longest_task [OF h1 h2, of 0] show ?thesis
    using h1 h2 by blast
qed

subsection \<open>The guarded division\<close>



subsection \<open>The arithmetic of the estimate\<close>



subsection \<open>Where the percentage comes from\<close>



subsection \<open>Tasks due soon\<close>

text \<open>
  Claim C1. The claim says that the tasks due soon are the open tasks due between now and
  seven days from now, so that a task due before now is not listed. The code tests only the
  upper end of the window: on 2024-01-01 an open task that was due on 2023-12-20 is listed,
  ahead of the one due on 2024-01-03; the completed task and the one due on 2024-01-20 are
  left out, rows are in ascending order of due date and carry the project's name.
\<close>

theorem due_soon_lists_overdue_task:
  "dashboard_page_due_soon overdue_db (to_datetime (ymd 2024 1 1)) =
     Due_table
       [\<lparr>Task = ''overdue'', Project = ''Apollo'', Status = ''Not Started'',
         Priority = ''Medium'', Due_Date = to_datetime (ymd 2023 12 20)\<rparr>,
        \<lparr>Task = ''soon'', Project = ''Apollo'', Status = ''Not Started'',
         Priority = ''Medium'', Due_Date = to_datetime (ymd 2024 1 3)\<rparr>]"
  by (simp add: dashboard_page_due_soon_def overdue_db_def upcoming_filter_def
      merge_projects_def display_tasks_def a_task_def a_project_def to_datetime_def
      timedelta_days_def US_PER_DAY_def ymd_2024_01 ymd_2023_12)

subsection \<open>Editing a row that does not exist\<close>

text \<open>
  Claim C3, as amended. The code has no not-found error. A run of the task form for an id
  that is not in the tasks table ends in \<open>TypeError\<close> when the row is loaded, whichever
  button was pressed and before any statement is executed, so that no table changes; and
  the \<open>UPDATE\<close> statement for such an id changes no row. The same holds for the project
  form and the projects table.
\<close>

theorem edit_form_absent_id:
  "(i \<notin> t_id ` set (tasks d) \<longrightarrow>
      tasks_page_form d (Row i) f b = Inl TypeError \<and>
      update_task (tasks d) i project_id assigned_to f = tasks d) \<and>
   (j \<notin> p_id ` set (projects d) \<longrightarrow>
      projects_page_form d (Row j) g b = Inl TypeError \<and>
      update_project (projects d) j g = projects d)"
  by (simp add: tasks_page_form_absent projects_page_form_absent update_task_def
      update_project_def map_update_absent)

theorem edit_form_absent_id_witness:
  "99 \<notin> t_id ` set (tasks durations_db) \<and>
   tasks_page_form durations_db (Row 99) (a_task_form ''deploy'' ''Apollo'') Save
     = Inl TypeError \<and>
   update_task (tasks durations_db) 99 1 None (a_task_form ''deploy'' ''Apollo'')
     = tasks durations_db \<and>
   99 \<notin> p_id ` set (projects durations_db) \<and>
   projects_page_form durations_db (Row 99) (a_project_form ''Apollo'') Save = Inl TypeError \<and>
   update_project (projects durations_db) 99 (a_project_form ''Apollo'') = projects durations_db"
proof -
  have h1: "99 \<notin> t_id ` set (tasks durations_db)"
    by (simp add: durations_db_def a_task_def)
  have h2: "99 \<notin> p_id ` set (projects durations_db)"
    by (simp add: durations_db_def a_project_def)
  from edit_form_absent_id [of 99 durations_db "a_task_form ''deploy'' ''Apollo''" Save 1 None
      99 "a_project_form ''Apollo''"]
  show ?thesis using h1 h2 by blast
qed

text \<open>
  Claim C3, as stated, fails: saving the task form for id 99, which no task has, does not
  end with a not-found error reported to the user but with an uncaught \<open>TypeError\<close>.
\<close>

theorem update_absent_task_raises_type_error:
  "tasks_page_form durations_db (Row 99) (a_task_form ''deploy'' ''Apollo'') Save
     = Inl TypeError"
  by (simp add: tasks_page_form_def load_task_data_def fetchone_task_def durations_db_def
      a_task_def)

subsection \<open>Creating a project\<close>



subsection \<open>Creating a project and reading it back\<close>

text \<open>
  Claim C7. For every form with a non-empty name, a status of the list and a progress
  between 0 and 100, saving the new-project form stores a row under a new id, and selecting
  that id returns a row that equals the form on every field; its progress lies between 0
  and 100 and its status is one of the list.
\<close>

theorem create_then_get_project:
  assumes name: "pf_name f \<noteq> []" and vals: "project_form_values f"
    and ids: "rowids_below_max (map p_id (projects d))"
  shows "\<exists>i d' p.
           projects_page_form d New f Save =
             Inr \<lparr>o_db = d', o_edit = None,
                  o_notice = Some (Success ''Project saved successfully!'')\<rparr> \<and>
           i \<notin> set (map p_id (projects d)) \<and> i \<le> MAX_ROWID \<and>
           fetchone_project (projects d') i = Some p \<and>
           p = \<lparr>p_id = i, p_name = pf_name f, p_description = pf_description f,
                p_start_date = pf_start_date f, p_end_date = pf_end_date f,
                p_status = pf_status f, p_progress = pf_progress f\<rparr> \<and>
           0 \<le> p_progress p \<and> p_progress p \<le> 100 \<and> p_status p \<in> set PROJECT_STATUSES"
proof -
  let ?i = "new_rowid (map p_id (projects d))"
  let ?p = "project_of_form ?i f"
  let ?d = "d\<lparr>projects := projects d @ [?p]\<rparr>"
  have fresh: "?i \<notin> set (map p_id (projects d))" by (rule new_rowid_fresh)
  have page: "projects_page_form d New f Save =
             Inr \<lparr>o_db = ?d, o_edit = None,
                  o_notice = Some (Success ''Project saved successfully!'')\<rparr>"
    using name by (rule projects_page_form_new_save)
  have "fetchone_project (projects ?d) ?i = Some ?p"
    using fresh by (simp add: fetchone_project_appended project_of_form_def)
  moreover have "?p = \<lparr>p_id = ?i, p_name = pf_name f, p_description = pf_description f,
                p_start_date = pf_start_date f, p_end_date = pf_end_date f,
                p_status = pf_status f, p_progress = pf_progress f\<rparr>"
    by (simp add: project_of_form_def)
  moreover have "0 \<le> p_progress ?p \<and> p_progress ?p \<le> 100 \<and> p_status ?p \<in> set PROJECT_STATUSES"
    using vals by (simp add: project_form_values_def project_of_form_def)
  moreover have "?i \<le> MAX_ROWID" using ids by (rule new_rowid_in_range)
  ultimately show ?thesis using page fresh by blast
qed

theorem create_then_get_project_witness:
  "pf_name (a_project_form ''Borealis'') \<noteq> [] \<and>
   project_form_values (a_project_form ''Borealis'') \<and>
   rowids_below_max (map p_id (projects durations_db)) \<and>
   (\<exists>i d' p.
      projects_page_form durations_db New (a_project_form ''Borealis'') Save =
        Inr \<lparr>o_db = d', o_edit = None,
             o_notice = Some (Success ''Project saved successfully!'')\<rparr> \<and>
      i \<notin> set (map p_id (projects durations_db)) \<and> i \<le> MAX_ROWID \<and>
      fetchone_project (projects d') i = Some p \<and>
      p = \<lparr>p_id = i, p_name = pf_name (a_project_form ''Borealis''),
           p_description = pf_description (a_project_form ''Borealis''),
           p_start_date = pf_start_date (a_project_form ''Borealis''),
           p_end_date = pf_end_date (a_project_form ''Borealis''),
           p_status = pf_status (a_project_form ''Borealis''),
           p_progress = pf_progress (a_project_form ''Borealis'')\<rparr> \<and>
      0 \<le> p_progress p \<and> p_progress p \<le> 100 \<and> p_status p \<in> set PROJECT_STATUSES)"
proof -
  have h1: "pf_name (a_project_form ''Borealis'') \<noteq> []"
    by (simp add: a_project_form_def)
  have h2: "project_form_values (a_project_form ''Borealis'')"
    by (simp add: project_form_values_def a_project_form_def PROJECT_STATUSES_def)
  have h3: "rowids_below_max (map p_id (projects durations_db))"
    by (simp add: rowids_below_max_def durations_db_def a_project_def MAX_ROWID_def)
  from create_then_get_project [OF h1 h2 h3]
  show ?thesis using h1 h2 h3 by blast
qed

subsection \<open>The filtered task listing\<close>



subsection \<open>Projects that share a name\<close>



end
